theory Spec2Isabelle
  imports Main "HOL-Library.Word" "HOL-Library.Monad_Syntax"
begin

section \<open>Program A: exception handling (Exception Handling/main.cpp)\<close>

subsection \<open>Console streams and program outcomes\<close>

text \<open>
  The only observable effect of either program is text written to the two console streams.
  Every statement of the source ends its line with \<open>endl\<close>, so one statement is one line;
  the lines of both streams are kept in one list, in the order they are written.
\<close>

datatype event = Cout string | Cerr string

type_synonym int32 = "32 word"

text \<open>
  The history of procedure entries is a ghost component: the source keeps no such list, it
  records which procedure was entered with which argument, in order.
\<close>

datatype call = Call_processData int32 | Call_safeOperation

record world =
  trace :: "event list"
  calls :: "call list"

definition init :: world where
  "init = \<lparr>trace = [], calls = []\<rparr>"

text \<open>
  The exception objects thrown by the source. \<open>bad_alloc\<close> is constructed without a message.
\<close>

datatype exn =
    invalid_argument string
  | MyCustomException string
  | overflow_error string
  | bad_alloc

text \<open>
  A statement either completes, or leaves by a thrown exception, or ends the process through
  \<open>std::terminate\<close>.
\<close>

datatype 'a outcome = Returns 'a | Throws exn | Terminates

type_synonym 'a prog = "world \<Rightarrow> 'a outcome \<times> world"

definition ret :: "'a \<Rightarrow> 'a prog" where
  "ret x s = (Returns x, s)"

definition throw :: "exn \<Rightarrow> 'a prog" where
  "throw e s = (Throws e, s)"

definition seq :: "unit prog \<Rightarrow> 'a prog \<Rightarrow> 'a prog" where
  "seq m k s =
     (case m s of
        (Returns u, s') \<Rightarrow> k s'
      | (Throws e, s') \<Rightarrow> (Throws e, s')
      | (Terminates, s') \<Rightarrow> (Terminates, s'))"

definition emit :: "event \<Rightarrow> world \<Rightarrow> world" where
  "emit ev s = s\<lparr>trace := trace s @ [ev]\<rparr>"

definition cout :: "string \<Rightarrow> unit prog" where
  "cout line s = (Returns (), emit (Cout line) s)"

definition cerr :: "string \<Rightarrow> unit prog" where
  "cerr line s = (Returns (), emit (Cerr line) s)"

definition enter :: "call \<Rightarrow> unit prog" where
  "enter c s = (Returns (), s\<lparr>calls := calls s @ [c]\<rparr>)"

subsection \<open>Decimal output of an \<open>int\<close>\<close>

text \<open>\<open>cout << value\<close> writes the signed value in decimal, with a minus sign when negative.\<close>

fun show_nat :: "nat \<Rightarrow> string" where
  "show_nat n =
     (if n < 10 then [''0123456789'' ! n]
      else show_nat (n div 10) @ [''0123456789'' ! (n mod 10)])"

declare show_nat.simps [simp del]

definition show_int :: "int \<Rightarrow> string" where
  "show_int i = (if i < 0 then CHR ''-'' # show_nat (nat (- i)) else show_nat (nat i))"

subsection \<open>The exception classes and \<open>what()\<close>\<close>

datatype exn_class =
    std_exception
  | std_logic_error
  | std_invalid_argument
  | std_runtime_error
  | std_overflow_error
  | std_bad_alloc
  | class_MyCustomException

fun class_of :: "exn \<Rightarrow> exn_class" where
  "class_of (invalid_argument m) = std_invalid_argument"
| "class_of (MyCustomException m) = class_MyCustomException"
| "class_of (overflow_error m) = std_overflow_error"
| "class_of bad_alloc = std_bad_alloc"

text \<open>A class together with its public base classes, most derived first.\<close>

fun bases :: "exn_class \<Rightarrow> exn_class list" where
  "bases std_exception = [std_exception]"
| "bases std_logic_error = [std_logic_error, std_exception]"
| "bases std_invalid_argument = [std_invalid_argument, std_logic_error, std_exception]"
| "bases std_runtime_error = [std_runtime_error, std_exception]"
| "bases std_overflow_error = [std_overflow_error, std_runtime_error, std_exception]"
| "bases std_bad_alloc = [std_bad_alloc, std_exception]"
| "bases class_MyCustomException = [class_MyCustomException, std_exception]"

text \<open>
  \<open>what()\<close> returns the message the object was constructed with. The text returned for
  \<open>bad_alloc\<close> is chosen by the C++ library, so it is the parameter \<open>bw\<close>.
\<close>

fun what :: "string \<Rightarrow> exn \<Rightarrow> string" where
  "what bw (invalid_argument m) = m"
| "what bw (MyCustomException m) = m"
| "what bw (overflow_error m) = m"
| "what bw bad_alloc = bw"

subsection \<open>\<open>ResourceGuard\<close>, \<open>safeOperation\<close> and \<open>processData\<close>\<close>

definition ResourceGuard_ctor :: "world \<Rightarrow> world" where
  "ResourceGuard_ctor = emit (Cout ''Resource acquired.'')"

definition ResourceGuard_dtor :: "world \<Rightarrow> world" where
  "ResourceGuard_dtor = emit (Cout ''Resource released (simulating finally block).'')"

text \<open>
  A block that declares a \<open>ResourceGuard\<close> first: the constructor runs, then the rest of the
  block, and the destructor runs when the block is left, by return or by an exception that
  unwinds the stack. Nothing runs after \<open>std::terminate\<close>. (C++ unwinds the stack for an
  exception that some handler matches, and leaves it to the implementation otherwise; every
  exception thrown in \<open>main\<close> is matched by a handler, as shown for the driver below.)
\<close>

definition with_ResourceGuard :: "'a prog \<Rightarrow> 'a prog" where
  "with_ResourceGuard body s =
     (case body (ResourceGuard_ctor s) of
        (Terminates, s') \<Rightarrow> (Terminates, s')
      | (r, s') \<Rightarrow> (r, ResourceGuard_dtor s'))"

text \<open>A \<open>noexcept\<close> function: an exception that would leave it ends the process.\<close>

definition noexcept :: "'a prog \<Rightarrow> 'a prog" where
  "noexcept body s =
     (case body s of
        (Throws e, s') \<Rightarrow> (Terminates, s')
      | (r, s') \<Rightarrow> (r, s'))"

definition safeOperation :: "unit prog" where
  "safeOperation =
     seq (enter Call_safeOperation)
       (noexcept (cout ''This operation is guaranteed not to throw an exception.''))"

definition processData :: "int32 \<Rightarrow> unit prog" where
  "processData value =
     seq (enter (Call_processData value))
       (with_ResourceGuard
         (seq (if sint value < 0 then throw (invalid_argument ''Negative value is not allowed.'')
               else if value = 0 then throw (MyCustomException ''Zero is not permitted.'')
               else if 100 < sint value then throw (overflow_error ''Value exceeds the allowable range.'')
               else ret ())
         (seq (if value = 99 then throw bad_alloc else ret ())
              (cout (''Value is valid: '' @ show_int (sint value))))))"

subsection \<open>\<open>try\<close> blocks and their handlers\<close>

datatype catch_clause = Catch exn_class | Catch_all

text \<open>
  \<open>catch (const T&)\<close> matches an exception whose class is \<open>T\<close> or has \<open>T\<close> as a public
  base; \<open>catch (...)\<close> matches every exception.
\<close>

fun catches :: "catch_clause \<Rightarrow> exn \<Rightarrow> bool" where
  "catches Catch_all e = True"
| "catches (Catch c) e = (c \<in> set (bases (class_of e)))"

type_synonym handler = "catch_clause \<times> (exn \<Rightarrow> unit prog)"

text \<open>The handlers of a \<open>try\<close> block are tried in the order they are written.\<close>

fun find_handler :: "exn \<Rightarrow> handler list \<Rightarrow> (exn \<Rightarrow> unit prog) option" where
  "find_handler e [] = None"
| "find_handler e ((c, h) # hs) = (if catches c e then Some h else find_handler e hs)"

text \<open>An exception that no handler of the block matches keeps propagating.\<close>

definition try_catch :: "unit prog \<Rightarrow> handler list \<Rightarrow> unit prog" where
  "try_catch body hs s =
     (case body s of
        (Returns u, s') \<Rightarrow> (Returns u, s')
      | (Throws e, s') \<Rightarrow>
          (case find_handler e hs of
             None \<Rightarrow> (Throws e, s')
           | Some h \<Rightarrow> h e s')
      | (Terminates, s') \<Rightarrow> (Terminates, s'))"

subsection \<open>\<open>main\<close>\<close>

text \<open>The seven \<open>try\<close> statements of \<open>main\<close>, in source order, each with its handler list.\<close>

definition handlers1 :: "string \<Rightarrow> handler list" where
  "handlers1 bw =
     [(Catch std_invalid_argument,
       \<lambda>e. cerr (''Caught a logic error (invalid_argument): '' @ what bw e))]"

definition handlers2 :: "string \<Rightarrow> handler list" where
  "handlers2 bw =
     [(Catch class_MyCustomException,
       \<lambda>e. cerr (''Caught a custom exception: '' @ what bw e))]"

definition handlers3 :: "string \<Rightarrow> handler list" where
  "handlers3 bw =
     [(Catch std_overflow_error,
       \<lambda>e. cerr (''Caught a runtime error (overflow_error): '' @ what bw e))]"

definition handlers4 :: "string \<Rightarrow> handler list" where
  "handlers4 bw =
     [(Catch std_bad_alloc,
       \<lambda>e. cerr (''Caught a memory allocation error (bad_alloc): '' @ what bw e))]"

definition handlers5 :: "string \<Rightarrow> handler list" where
  "handlers5 bw =
     [(Catch std_exception,
       \<lambda>e. cerr (''Caught a general exception: '' @ what bw e))]"

definition handlers6 :: "handler list" where
  "handlers6 = [(Catch_all, \<lambda>e. cerr ''Caught an unexpected exception.'')]"

definition handlers7 :: "handler list" where
  "handlers7 =
     [(Catch_all,
       \<lambda>e. cerr ''This block will never be executed as safeOperation() is noexcept.'')]"

definition try1 :: "string \<Rightarrow> unit prog" where
  "try1 bw = try_catch (processData (- 1)) (handlers1 bw)"

definition try2 :: "string \<Rightarrow> unit prog" where
  "try2 bw = try_catch (processData 0) (handlers2 bw)"

definition try3 :: "string \<Rightarrow> unit prog" where
  "try3 bw = try_catch (processData 101) (handlers3 bw)"

definition try4 :: "string \<Rightarrow> unit prog" where
  "try4 bw = try_catch (processData 99) (handlers4 bw)"

definition try5 :: "string \<Rightarrow> unit prog" where
  "try5 bw = try_catch (processData 10) (handlers5 bw)"

definition try6 :: "unit prog" where
  "try6 = try_catch (seq (processData 50) (processData 999)) handlers6"

definition try7 :: "unit prog" where
  "try7 = try_catch safeOperation handlers7"

definition main :: "string \<Rightarrow> int32 prog" where
  "main bw =
     seq (try1 bw) (seq (try2 bw) (seq (try3 bw) (seq (try4 bw) (seq (try5 bw)
       (seq try6 (seq try7 (ret 0)))))))"

text \<open>
  The process: an exception that leaves \<open>main\<close> has no handler and ends the process through
  \<open>std::terminate\<close>; otherwise the exit status is the value \<open>main\<close> returns.
\<close>

datatype exit = Exit int32 | Aborted

definition run :: "string \<Rightarrow> exit \<times> event list" where
  "run bw =
     (case main bw init of
        (Returns n, s) \<Rightarrow> (Exit n, trace s)
      | (Throws e, s) \<Rightarrow> (Aborted, trace s)
      | (Terminates, s) \<Rightarrow> (Aborted, trace s))"

text \<open>The lines written to one stream, in order.\<close>

fun stdout_lines :: "event list \<Rightarrow> string list" where
  "stdout_lines [] = []"
| "stdout_lines (Cout l # es) = l # stdout_lines es"
| "stdout_lines (Cerr l # es) = stdout_lines es"

fun stderr_lines :: "event list \<Rightarrow> string list" where
  "stderr_lines [] = []"
| "stderr_lines (Cout l # es) = stderr_lines es"
| "stderr_lines (Cerr l # es) = l # stderr_lines es"

section \<open>Program B: preprocessor directives (Preprocessor Directives/main.cpp)\<close>

subsection \<open>Macros and conditional inclusion\<close>

text \<open>
  The three shapes of macro the source defines: an integer body (\<open>#define MAX_HEALTH 100\<close>),
  an empty body (\<open>#define DEBUG\<close>) and a function-like macro of one string argument
  (\<open>GREETING(name)\<close>).
\<close>

datatype macro = Object_int int | Object_empty | Function_like "string \<Rightarrow> string"

type_synonym macro_table = "string \<Rightarrow> macro option"

text \<open>
  \<open>main\<close> is straight-line code, so the directives take effect and the statements run in
  the same textual order. One state therefore carries both the macro table the preprocessor
  has at a point of the text and the lines the compiled statements have printed up to there.
\<close>

record pstate =
  macros :: macro_table
  out :: "string list"

text \<open>
  A plain build defines no macro on the command line, and the headers included define none
  of the names the directives of the source mention.
\<close>

definition pstate0 :: pstate where
  "pstate0 = \<lparr>macros = Map.empty, out = []\<rparr>"

definition pp_define :: "string \<Rightarrow> macro \<Rightarrow> pstate \<Rightarrow> pstate" where
  "pp_define name m s = s\<lparr>macros := (macros s)(name \<mapsto> m)\<rparr>"

definition pp_undef :: "string \<Rightarrow> pstate \<Rightarrow> pstate" where
  "pp_undef name s = s\<lparr>macros := (macros s)(name := None)\<rparr>"

definition print_line :: "string \<Rightarrow> pstate \<Rightarrow> pstate" where
  "print_line line s = s\<lparr>out := out s @ [line]\<rparr>"

text \<open>
  A name used in a statement where an \<open>int\<close> is expected: the build succeeds only when the
  name is a macro with an integer body at that point (the source declares no variable of
  these names). \<open>None\<close> is a failed build.
\<close>

fun macro_int :: "macro_table \<Rightarrow> string \<Rightarrow> int option" where
  "macro_int M name =
     (case M name of
        Some (Object_int n) \<Rightarrow> Some n
      | _ \<Rightarrow> None)"

fun macro_apply :: "macro_table \<Rightarrow> string \<Rightarrow> string \<Rightarrow> string option" where
  "macro_apply M name arg =
     (case M name of
        Some (Function_like f) \<Rightarrow> Some (f arg)
      | _ \<Rightarrow> None)"

text \<open>
  The controlling expressions of \<open>#if\<close> and \<open>#elif\<close> in the source compare an identifier
  with an integer literal. The preprocessor evaluates them from the macro table alone: a
  macro name is replaced by its body, and every identifier that is left after macro
  replacement is replaced by \<open>0\<close>. Variables of the program do not exist at this stage.
  A macro with an empty body leaves no operand, which is a failed build; the name of a
  function-like macro without arguments is not replaced and so counts as an identifier.
\<close>

datatype pp_expr = Ident string | Lit int | Equal pp_expr pp_expr

fun pp_eval :: "macro_table \<Rightarrow> pp_expr \<Rightarrow> int option" where
  "pp_eval M (Lit n) = Some n"
| "pp_eval M (Ident x) =
     (case M x of
        None \<Rightarrow> Some 0
      | Some (Object_int n) \<Rightarrow> Some n
      | Some Object_empty \<Rightarrow> None
      | Some (Function_like f) \<Rightarrow> Some 0)"
| "pp_eval M (Equal a b) =
     (case pp_eval M a of
        None \<Rightarrow> None
      | Some x \<Rightarrow>
          (case pp_eval M b of
             None \<Rightarrow> None
           | Some y \<Rightarrow> Some (if x = y then 1 else 0)))"

type_synonym group = "pstate \<Rightarrow> pstate option"

text \<open>\<open>#ifdef name ... #endif\<close>: the group is compiled when the name is a macro.\<close>

definition ifdef :: "string \<Rightarrow> group \<Rightarrow> group" where
  "ifdef name g s = (if macros s name \<noteq> None then g s else Some s)"

text \<open>
  \<open>#if c1 ... #elif c2 ... #else ... #endif\<close>: the group of the first condition that is
  not zero is compiled, the \<open>#else\<close> group when there is none; the other groups are skipped.
\<close>

fun if_groups :: "(pp_expr \<times> group) list \<Rightarrow> group \<Rightarrow> group" where
  "if_groups [] els s = els s"
| "if_groups ((c, g) # rest) els s =
     (case pp_eval (macros s) c of
        None \<Rightarrow> None
      | Some n \<Rightarrow> if n \<noteq> 0 then g s else if_groups rest els s)"

subsection \<open>\<open>main\<close>\<close>

text \<open>The values the build environment supplies for \<open>__FILE__\<close>, \<open>__DATE__\<close> and \<open>__TIME__\<close>.\<close>

record build_env =
  file_name :: string
  build_date :: string
  build_time :: string

text \<open>The local variables of \<open>main\<close>; none is assigned after its declaration.\<close>

definition playerName :: string where
  "playerName = ''Hero''"

definition playerHealth :: int32 where
  "playerHealth = 90"

definition bossHealth :: int32 where
  "bossHealth = 120"

definition difficulty :: int32 where
  "difficulty = 2"

text \<open>The five numbered parts of \<open>main\<close>, as its comments divide it.\<close>

definition part1 :: group where
  "part1 s0 =
     (let s1 = pp_define ''MAX_HEALTH'' (Object_int 100) s0;
          s2 = pp_define ''GREETING''
                 (Function_like (\<lambda>name. ''Hello, '' @ name @ ''! Welcome to the game.'')) s1
      in do {
        greeting \<leftarrow> macro_apply (macros s2) ''GREETING'' playerName;
        let s3 = print_line greeting s2;
        max_health \<leftarrow> macro_int (macros s3) ''MAX_HEALTH'';
        Some (if sint playerHealth > max_health
              then print_line ''Health exceeds maximum limit!'' s3
              else print_line (''Your current health is: '' @ show_int (sint playerHealth)
                            @ '' out of '' @ show_int max_health) s3)
      })"

definition part2 :: group where
  "part2 s0 =
     (let s1 = pp_undef ''MAX_HEALTH'' s0;
          s2 = pp_define ''MAX_HEALTH'' (Object_int 150) s1
      in do {
        max_health \<leftarrow> macro_int (macros s2) ''MAX_HEALTH'';
        Some (print_line (''Boss health: '' @ show_int (sint bossHealth)
                       @ '' out of '' @ show_int max_health) s2)
      })"

definition part3 :: group where
  "part3 s0 =
     (let s1 = pp_define ''DEBUG'' Object_empty s0
      in ifdef ''DEBUG''
           (\<lambda>s. Some (print_line (''[DEBUG] Boss health: '' @ show_int (sint bossHealth))
                     (print_line (''[DEBUG] Player health: '' @ show_int (sint playerHealth))
                     (print_line (''[DEBUG] Player name: '' @ playerName)
                     (print_line ''[DEBUG] Debugging information enabled.'' s))))) s1)"

definition part4 :: "build_env \<Rightarrow> group" where
  "part4 env s =
     Some (print_line (''Current line number: '' @ show_int 72)
          (print_line (''Compiled on: '' @ build_date env @ '' at '' @ build_time env)
          (print_line (''File: '' @ file_name env) s)))"

definition part5 :: group where
  "part5 s =
     if_groups
       [(Equal (Ident ''difficulty'') (Lit 1), \<lambda>s. Some (print_line ''Easy mode activated.'' s)),
        (Equal (Ident ''difficulty'') (Lit 2), \<lambda>s. Some (print_line ''Normal mode activated.'' s))]
       (\<lambda>s. Some (print_line ''Hard mode activated.'' s)) s"

definition main_B :: "build_env \<Rightarrow> (int32 \<times> string list) option" where
  "main_B env = do {
     s1 \<leftarrow> part1 pstate0;
     s2 \<leftarrow> part2 s1;
     s3 \<leftarrow> part3 s2;
     s4 \<leftarrow> part4 env s3;
     s5 \<leftarrow> part5 s4;
     Some (0, out s5)
   }"

section \<open>The classification as the specification words it\<close>

text \<open>
  The five rules of the specification over the mathematical integers, first match wins:
  the error of the rule, or the line a valid value prints.
\<close>

definition spec_classification :: "int \<Rightarrow> exn + string" where
  "spec_classification value =
     (if value < 0 then Inl (invalid_argument ''Negative value is not allowed.'')
      else if value = 0 then Inl (MyCustomException ''Zero is not permitted.'')
      else if value > 100 then Inl (overflow_error ''Value exceeds the allowable range.'')
      else if value = 99 then Inl bad_alloc
      else Inr (''Value is valid: '' @ show_int value))"

text \<open>Whether a text occurs inside a line.\<close>

fun occurs_in :: "string \<Rightarrow> string \<Rightarrow> bool" where
  "occurs_in p [] = (p = [])"
| "occurs_in p (c # cs) = (take (length p) (c # cs) = p \<or> occurs_in p cs)"

section \<open>Properties of Program A\<close>

subsection \<open>One call of \<open>processData\<close>\<close>

lemma sint_eq_99: "(sint (v::int32) = 99) = (v = 99)"
  using word_eq_iff_signed [where ?'a = int, of v 99] by simp

lemmas prog_defs = seq_def ret_def throw_def cout_def cerr_def enter_def emit_def
  with_ResourceGuard_def ResourceGuard_ctor_def ResourceGuard_dtor_def

lemma processData_negative:
  "sint v < 0 \<Longrightarrow> processData v s =
     (Throws (invalid_argument ''Negative value is not allowed.''),
      s\<lparr>calls := calls s @ [Call_processData v],
        trace := trace s @ [Cout ''Resource acquired.'',
                            Cout ''Resource released (simulating finally block).'']\<rparr>)"
  by (simp add: processData_def prog_defs)

lemma processData_zero:
  "processData 0 s =
     (Throws (MyCustomException ''Zero is not permitted.''),
      s\<lparr>calls := calls s @ [Call_processData 0],
        trace := trace s @ [Cout ''Resource acquired.'',
                            Cout ''Resource released (simulating finally block).'']\<rparr>)"
  by (simp add: processData_def prog_defs)

lemma processData_large:
  "100 < sint v \<Longrightarrow> processData v s =
     (Throws (overflow_error ''Value exceeds the allowable range.''),
      s\<lparr>calls := calls s @ [Call_processData v],
        trace := trace s @ [Cout ''Resource acquired.'',
                            Cout ''Resource released (simulating finally block).'']\<rparr>)"
  by (auto simp add: processData_def prog_defs)

lemma processData_99:
  "processData 99 s =
     (Throws bad_alloc,
      s\<lparr>calls := calls s @ [Call_processData 99],
        trace := trace s @ [Cout ''Resource acquired.'',
                            Cout ''Resource released (simulating finally block).'']\<rparr>)"
  by (simp add: processData_def prog_defs)

lemma processData_valid:
  "0 < sint v \<Longrightarrow> sint v \<le> 100 \<Longrightarrow> v \<noteq> 99 \<Longrightarrow> processData v s =
     (Returns (),
      s\<lparr>calls := calls s @ [Call_processData v],
        trace := trace s @ [Cout ''Resource acquired.'',
                            Cout (''Value is valid: '' @ show_int (sint v)),
                            Cout ''Resource released (simulating finally block).'']\<rparr>)"
  by (auto simp add: processData_def prog_defs)

lemma processData_cases:
  obtains (negative) "sint v < 0"
  | (zero) "v = 0"
  | (large) "100 < sint v"
  | (ninety_nine) "v = 99"
  | (valid) "0 < sint v" "sint v \<le> 100" "v \<noteq> 99"
proof (cases "sint v < 0")
  case True
  then show thesis by (rule negative)
next
  case nonneg: False
  show thesis
  proof (cases "v = 0")
    case True
    then show thesis by (rule zero)
  next
    case False
    then have "sint v \<noteq> 0"
      by (simp add: signed_eq_0_iff)
    with nonneg have pos: "0 < sint v"
      by arith
    show thesis
    proof (cases "100 < sint v")
      case True
      then show thesis by (rule large)
    next
      case small: False
      show thesis
      proof (cases "v = 99")
        case True
        then show thesis by (rule ninety_nine)
      next
        case False
        with pos small show thesis
          by (intro valid) simp_all
      qed
    qed
  qed
qed

text \<open>
  Claim C1. For every \<open>int\<close> value, \<open>processData\<close> does exactly what the five-way
  classification of the specification says, first match wins: a negative value throws
  \<open>invalid_argument\<close> with "Negative value is not allowed.", zero throws
  \<open>MyCustomException\<close> with "Zero is not permitted.", a value above 100 throws
  \<open>overflow_error\<close> with "Value exceeds the allowable range.", 99 throws \<open>bad_alloc\<close>, and
  every other value returns normally after printing "Value is valid: " followed by the
  value. The guard's two lines surround the call in every case.
\<close>

theorem processData_five_way:
  "processData v s =
     (case spec_classification (sint v) of
        Inl e \<Rightarrow>
          (Throws e,
           s\<lparr>calls := calls s @ [Call_processData v],
             trace := trace s @ [Cout ''Resource acquired.'',
                                 Cout ''Resource released (simulating finally block).'']\<rparr>)
      | Inr line \<Rightarrow>
          (Returns (),
           s\<lparr>calls := calls s @ [Call_processData v],
             trace := trace s @ [Cout ''Resource acquired.'', Cout line,
                                 Cout ''Resource released (simulating finally block).'']\<rparr>))"
proof (cases v rule: processData_cases)
  case negative
  then show ?thesis
    by (simp add: processData_negative spec_classification_def)
next
  case zero
  then show ?thesis
    by (simp add: processData_zero spec_classification_def)
next
  case large
  then show ?thesis
    by (simp add: processData_large spec_classification_def)
next
  case ninety_nine
  then show ?thesis
    by (simp add: processData_99 spec_classification_def)
next
  case valid
  then show ?thesis
    by (simp add: processData_valid spec_classification_def sint_eq_99)
qed

text \<open>
  Claim C3. Every call of \<open>processData\<close>, whatever the value and whatever was printed
  before, first prints "Resource acquired." and ends by printing
  "Resource released (simulating finally block).": the first is the first line of the call,
  the second its last, and neither occurs in between, on the path that returns and on the
  four that throw.
\<close>

theorem processData_guard_pair:
  "\<exists>mid. trace (snd (processData v s)) =
            trace s @ Cout ''Resource acquired.'' # mid
              @ [Cout ''Resource released (simulating finally block).'']
         \<and> Cout ''Resource acquired.'' \<notin> set mid
         \<and> Cout ''Resource released (simulating finally block).'' \<notin> set mid"
proof (cases v rule: processData_cases)
  case negative
  then show ?thesis
    by (simp add: processData_negative)
next
  case zero
  then show ?thesis
    by (simp add: processData_zero)
next
  case large
  then show ?thesis
    by (simp add: processData_large)
next
  case ninety_nine
  then show ?thesis
    by (simp add: processData_99)
next
  case valid
  then show ?thesis
    by (simp add: processData_valid)
qed

text \<open>
  Claim C9. \<open>processData\<close> is deterministic: two calls with the same value, from any two
  states of the console, have the same outcome (the same exception with the same message,
  or normal return) and write the same lines.
\<close>

theorem processData_deterministic:
  "fst (processData v s) = fst (processData v s') \<and>
   (\<exists>out. trace (snd (processData v s)) = trace s @ out \<and>
          trace (snd (processData v s')) = trace s' @ out)"
proof (cases v rule: processData_cases)
  case negative
  then show ?thesis
    by (simp add: processData_negative)
next
  case zero
  then show ?thesis
    by (simp add: processData_zero)
next
  case large
  then show ?thesis
    by (simp add: processData_large)
next
  case ninety_nine
  then show ?thesis
    by (simp add: processData_99)
next
  case valid
  then show ?thesis
    by (simp add: processData_valid)
qed

subsection \<open>\<open>safeOperation\<close>\<close>

lemma safeOperation_run:
  "safeOperation s =
     (Returns (),
      s\<lparr>calls := calls s @ [Call_safeOperation],
        trace := trace s @ [Cout ''This operation is guaranteed not to throw an exception.'']\<rparr>)"
  by (simp add: safeOperation_def noexcept_def prog_defs)

text \<open>
  Claim C7. \<open>safeOperation\<close> never throws: from any state it prints its one line and
  returns normally, so a \<open>try\<close> block around it, with any handlers, behaves as the call
  alone.
\<close>

theorem safeOperation_never_throws:
  "safeOperation s =
     (Returns (),
      s\<lparr>calls := calls s @ [Call_safeOperation],
        trace := trace s @ [Cout ''This operation is guaranteed not to throw an exception.'']\<rparr>)
   \<and> try_catch safeOperation hs s = safeOperation s"
  by (simp add: safeOperation_run try_catch_def)

subsection \<open>The driver\<close>

text \<open>What each \<open>try\<close> statement of \<open>main\<close> does, from any state of the console.\<close>

lemma show_int_10: "show_int 10 = ''10''"
  by code_simp

lemma show_int_50: "show_int 50 = ''50''"
  by code_simp

lemma try1_run:
  "try1 bw s =
     (Returns (),
      s\<lparr>calls := calls s @ [Call_processData (- 1)],
        trace := trace s @
          [Cout ''Resource acquired.'',
           Cout ''Resource released (simulating finally block).'',
           Cerr ''Caught a logic error (invalid_argument): Negative value is not allowed.'']\<rparr>)"
  by (simp add: try1_def try_catch_def handlers1_def processData_negative cerr_def emit_def)

lemma try2_run:
  "try2 bw s =
     (Returns (),
      s\<lparr>calls := calls s @ [Call_processData 0],
        trace := trace s @
          [Cout ''Resource acquired.'',
           Cout ''Resource released (simulating finally block).'',
           Cerr ''Caught a custom exception: Zero is not permitted.'']\<rparr>)"
  by (simp add: try2_def try_catch_def handlers2_def processData_zero cerr_def emit_def)

lemma try3_run:
  "try3 bw s =
     (Returns (),
      s\<lparr>calls := calls s @ [Call_processData 101],
        trace := trace s @
          [Cout ''Resource acquired.'',
           Cout ''Resource released (simulating finally block).'',
           Cerr ''Caught a runtime error (overflow_error): Value exceeds the allowable range.'']\<rparr>)"
  by (simp add: try3_def try_catch_def handlers3_def processData_large cerr_def emit_def)

lemma try4_run:
  "try4 bw s =
     (Returns (),
      s\<lparr>calls := calls s @ [Call_processData 99],
        trace := trace s @
          [Cout ''Resource acquired.'',
           Cout ''Resource released (simulating finally block).'',
           Cerr (''Caught a memory allocation error (bad_alloc): '' @ bw)]\<rparr>)"
  by (simp add: try4_def try_catch_def handlers4_def processData_99 cerr_def emit_def)

lemma processData_10:
  "processData 10 s =
     (Returns (),
      s\<lparr>calls := calls s @ [Call_processData 10],
        trace := trace s @
          [Cout ''Resource acquired.'', Cout ''Value is valid: 10'',
           Cout ''Resource released (simulating finally block).'']\<rparr>)"
  by (simp add: processData_valid show_int_10)

lemma processData_50:
  "processData 50 s =
     (Returns (),
      s\<lparr>calls := calls s @ [Call_processData 50],
        trace := trace s @
          [Cout ''Resource acquired.'', Cout ''Value is valid: 50'',
           Cout ''Resource released (simulating finally block).'']\<rparr>)"
  by (simp add: processData_valid show_int_50)

lemma processData_999:
  "processData 999 s =
     (Throws (overflow_error ''Value exceeds the allowable range.''),
      s\<lparr>calls := calls s @ [Call_processData 999],
        trace := trace s @
          [Cout ''Resource acquired.'',
           Cout ''Resource released (simulating finally block).'']\<rparr>)"
  by (simp add: processData_large)

lemma try5_run:
  "try5 bw s =
     (Returns (),
      s\<lparr>calls := calls s @ [Call_processData 10],
        trace := trace s @
          [Cout ''Resource acquired.'', Cout ''Value is valid: 10'',
           Cout ''Resource released (simulating finally block).'']\<rparr>)"
  by (simp add: try5_def try_catch_def processData_10)

lemma compound_run:
  "seq (processData 50) (processData 999) s =
     (Throws (overflow_error ''Value exceeds the allowable range.''),
      s\<lparr>calls := calls s @ [Call_processData 50, Call_processData 999],
        trace := trace s @
          [Cout ''Resource acquired.'', Cout ''Value is valid: 50'',
           Cout ''Resource released (simulating finally block).'',
           Cout ''Resource acquired.'',
           Cout ''Resource released (simulating finally block).'']\<rparr>)"
  by (simp add: seq_def processData_50 processData_999)

lemma try6_run:
  "try6 s =
     (Returns (),
      s\<lparr>calls := calls s @ [Call_processData 50, Call_processData 999],
        trace := trace s @
          [Cout ''Resource acquired.'', Cout ''Value is valid: 50'',
           Cout ''Resource released (simulating finally block).'',
           Cout ''Resource acquired.'',
           Cout ''Resource released (simulating finally block).'',
           Cerr ''Caught an unexpected exception.'']\<rparr>)"
  by (simp add: try6_def try_catch_def handlers6_def compound_run cerr_def emit_def)

lemma try7_run:
  "try7 s =
     (Returns (),
      s\<lparr>calls := calls s @ [Call_safeOperation],
        trace := trace s @ [Cout ''This operation is guaranteed not to throw an exception.'']\<rparr>)"
  by (simp add: try7_def try_catch_def safeOperation_run)

lemmas try_runs = try1_run try2_run try3_run try4_run try5_run try6_run try7_run

lemma main_run:
  "main bw s =
     (Returns 0,
      s\<lparr>calls := calls s @
          [Call_processData (- 1), Call_processData 0, Call_processData 101,
           Call_processData 99, Call_processData 10, Call_processData 50,
           Call_processData 999, Call_safeOperation],
        trace := trace s @
          [Cout ''Resource acquired.'',
           Cout ''Resource released (simulating finally block).'',
           Cerr ''Caught a logic error (invalid_argument): Negative value is not allowed.'',
           Cout ''Resource acquired.'',
           Cout ''Resource released (simulating finally block).'',
           Cerr ''Caught a custom exception: Zero is not permitted.'',
           Cout ''Resource acquired.'',
           Cout ''Resource released (simulating finally block).'',
           Cerr ''Caught a runtime error (overflow_error): Value exceeds the allowable range.'',
           Cout ''Resource acquired.'',
           Cout ''Resource released (simulating finally block).'',
           Cerr (''Caught a memory allocation error (bad_alloc): '' @ bw),
           Cout ''Resource acquired.'', Cout ''Value is valid: 10'',
           Cout ''Resource released (simulating finally block).'',
           Cout ''Resource acquired.'', Cout ''Value is valid: 50'',
           Cout ''Resource released (simulating finally block).'',
           Cout ''Resource acquired.'',
           Cout ''Resource released (simulating finally block).'',
           Cerr ''Caught an unexpected exception.'',
           Cout ''This operation is guaranteed not to throw an exception.'']\<rparr>)"
  by (simp add: main_def seq_def ret_def try_runs)

lemma run_result:
  "run bw =
     (Exit 0,
          [Cout ''Resource acquired.'',
           Cout ''Resource released (simulating finally block).'',
           Cerr ''Caught a logic error (invalid_argument): Negative value is not allowed.'',
           Cout ''Resource acquired.'',
           Cout ''Resource released (simulating finally block).'',
           Cerr ''Caught a custom exception: Zero is not permitted.'',
           Cout ''Resource acquired.'',
           Cout ''Resource released (simulating finally block).'',
           Cerr ''Caught a runtime error (overflow_error): Value exceeds the allowable range.'',
           Cout ''Resource acquired.'',
           Cout ''Resource released (simulating finally block).'',
           Cerr (''Caught a memory allocation error (bad_alloc): '' @ bw),
           Cout ''Resource acquired.'', Cout ''Value is valid: 10'',
           Cout ''Resource released (simulating finally block).'',
           Cout ''Resource acquired.'', Cout ''Value is valid: 50'',
           Cout ''Resource released (simulating finally block).'',
           Cout ''Resource acquired.'',
           Cout ''Resource released (simulating finally block).'',
           Cerr ''Caught an unexpected exception.'',
           Cout ''This operation is guaranteed not to throw an exception.''])"
  by (simp add: run_def main_run init_def)

text \<open>
  Claim C4. \<open>main\<close> enters \<open>processData\<close> exactly seven times, with -1, 0, 101, 99, 10, 50
  and 999 in this order, and then \<open>safeOperation\<close> once. The output of the run is one
  segment per call: the acquire and release lines of each of the seven calls, with the
  line of a valid value between them, and one line on the error stream right after each of
  the five calls that throw. So the run has seven acquire lines, seven release lines and
  five lines on the error stream.
\<close>

theorem driver_calls_and_pairs:
  "calls (snd (main bw init)) =
     [Call_processData (- 1), Call_processData 0, Call_processData 101, Call_processData 99,
      Call_processData 10, Call_processData 50, Call_processData 999, Call_safeOperation]
   \<and> snd (run bw) =
       [Cout ''Resource acquired.'', Cout ''Resource released (simulating finally block).'',
        Cerr ''Caught a logic error (invalid_argument): Negative value is not allowed.'']
     @ [Cout ''Resource acquired.'', Cout ''Resource released (simulating finally block).'',
        Cerr ''Caught a custom exception: Zero is not permitted.'']
     @ [Cout ''Resource acquired.'', Cout ''Resource released (simulating finally block).'',
        Cerr ''Caught a runtime error (overflow_error): Value exceeds the allowable range.'']
     @ [Cout ''Resource acquired.'', Cout ''Resource released (simulating finally block).'',
        Cerr (''Caught a memory allocation error (bad_alloc): '' @ bw)]
     @ [Cout ''Resource acquired.'', Cout ''Value is valid: 10'',
        Cout ''Resource released (simulating finally block).'']
     @ [Cout ''Resource acquired.'', Cout ''Value is valid: 50'',
        Cout ''Resource released (simulating finally block).'']
     @ [Cout ''Resource acquired.'', Cout ''Resource released (simulating finally block).'',
        Cerr ''Caught an unexpected exception.'']
     @ [Cout ''This operation is guaranteed not to throw an exception.'']
   \<and> length (filter (\<lambda>e. e = Cout ''Resource acquired.'') (snd (run bw))) = 7
   \<and> length (filter (\<lambda>e. e = Cout ''Resource released (simulating finally block).'')
               (snd (run bw))) = 7
   \<and> length (stderr_lines (snd (run bw))) = 5"
  by (simp add: main_run run_result init_def)

text \<open>
  Claim C5. Each of the five exceptions thrown by a call of \<open>processData\<close> in \<open>main\<close> is
  matched by a handler of the \<open>try\<close> statement around that call, every \<open>try\<close> statement
  completes normally, no exception leaves \<open>main\<close>, and the process exits with status 0.
\<close>

theorem driver_catches_every_error:
  "(\<exists>e. fst (processData (- 1) s) = Throws e \<and> find_handler e (handlers1 bw) \<noteq> None)
   \<and> fst (try1 bw s) = Returns ()
   \<and> (\<exists>e. fst (processData 0 s) = Throws e \<and> find_handler e (handlers2 bw) \<noteq> None)
   \<and> fst (try2 bw s) = Returns ()
   \<and> (\<exists>e. fst (processData 101 s) = Throws e \<and> find_handler e (handlers3 bw) \<noteq> None)
   \<and> fst (try3 bw s) = Returns ()
   \<and> (\<exists>e. fst (processData 99 s) = Throws e \<and> find_handler e (handlers4 bw) \<noteq> None)
   \<and> fst (try4 bw s) = Returns ()
   \<and> fst (processData 10 s) = Returns ()
   \<and> fst (try5 bw s) = Returns ()
   \<and> fst (processData 50 s) = Returns ()
   \<and> (\<exists>e. fst (processData 999 s) = Throws e \<and> find_handler e handlers6 \<noteq> None)
   \<and> fst (try6 s) = Returns ()
   \<and> fst (try7 s) = Returns ()
   \<and> fst (main bw s) = Returns 0
   \<and> fst (run bw) = Exit 0"
  by (simp add: try_runs main_run run_result processData_negative processData_zero
        processData_large processData_99 processData_10 processData_50
        handlers1_def handlers2_def handlers3_def handlers4_def handlers6_def)

text \<open>
  Claim C6, as stated, fails at the call \<open>processData(999)\<close>: it throws \<open>overflow_error\<close>
  with the message "Value exceeds the allowable range.", and the one line its \<open>try\<close>
  statement writes to the error stream is "Caught an unexpected exception.", which contains
  neither that message nor the name of the error kind.
\<close>

theorem catch_all_diagnostic_counterexample:
  "fst (processData 999 init) = Throws (overflow_error ''Value exceeds the allowable range.'')
   \<and> stderr_lines (trace (snd (try6 init))) = [''Caught an unexpected exception.'']
   \<and> \<not> occurs_in (what ''std::bad_alloc'' (overflow_error ''Value exceeds the allowable range.''))
          ''Caught an unexpected exception.''
   \<and> \<not> occurs_in ''overflow'' ''Caught an unexpected exception.''"
  by (simp add: processData_999 try6_run init_def)

text \<open>
  Claim C6, amended. For the four failing calls guarded by a typed handler (-1, 0, 101 and
  99) the \<open>try\<close> statement adds to the output of the call exactly one line on the error
  stream, made of a label that names the exception class followed by the \<open>what()\<close> text of
  the exception thrown, and completes normally. For the failing call 999, guarded by
  \<open>catch (...)\<close>, the one line added is the fixed text "Caught an unexpected exception.",
  and the statement completes normally as well. In all five cases the driver goes on to
  its next statement.
\<close>

theorem driver_diagnostics:
  "(\<exists>e. fst (processData (- 1) s) = Throws e \<and>
        try1 bw s =
          (Returns (),
           emit (Cerr (''Caught a logic error (invalid_argument): '' @ what bw e))
             (snd (processData (- 1) s))))
   \<and> (\<exists>e. fst (processData 0 s) = Throws e \<and>
        try2 bw s =
          (Returns (),
           emit (Cerr (''Caught a custom exception: '' @ what bw e))
             (snd (processData 0 s))))
   \<and> (\<exists>e. fst (processData 101 s) = Throws e \<and>
        try3 bw s =
          (Returns (),
           emit (Cerr (''Caught a runtime error (overflow_error): '' @ what bw e))
             (snd (processData 101 s))))
   \<and> (\<exists>e. fst (processData 99 s) = Throws e \<and>
        try4 bw s =
          (Returns (),
           emit (Cerr (''Caught a memory allocation error (bad_alloc): '' @ what bw e))
             (snd (processData 99 s))))
   \<and> try6 s =
        (Returns (),
         emit (Cerr ''Caught an unexpected exception.'')
           (snd (seq (processData 50) (processData 999) s)))"
  by (simp add: try_runs compound_run processData_negative processData_zero
        processData_large processData_99 emit_def)

text \<open>
  Claim C10. The handler around \<open>processData(10)\<close> and the handler around
  \<open>safeOperation()\<close> are never entered: both \<open>try\<close> statements behave as their bodies
  alone, which return normally, and no line of the run starts with
  "Caught a general exception: " or is
  "This block will never be executed as safeOperation() is noexcept.".
\<close>

theorem unused_handlers_never_run:
  "try5 bw s = processData 10 s
   \<and> fst (processData 10 s) = Returns ()
   \<and> try7 s = safeOperation s
   \<and> fst (safeOperation s) = Returns ()
   \<and> Cerr (''Caught a general exception: '' @ l) \<notin> set (snd (run bw))
   \<and> Cerr ''This block will never be executed as safeOperation() is noexcept.''
        \<notin> set (snd (run bw))"
  by (simp add: try_runs processData_10 safeOperation_run run_result)

section \<open>Properties of Program B\<close>

lemma show_int_72: "show_int 72 = ''72''"
  by code_simp

lemma show_int_90: "show_int 90 = ''90''"
  by code_simp

lemma show_int_100: "show_int 100 = ''100''"
  by code_simp

lemma show_int_120: "show_int 120 = ''120''"
  by code_simp

lemma show_int_150: "show_int 150 = ''150''"
  by code_simp

lemmas show_int_values = show_int_72 show_int_90 show_int_100 show_int_120 show_int_150

lemmas pp_defs = pp_define_def pp_undef_def print_line_def ifdef_def pstate0_def
  playerName_def playerHealth_def bossHealth_def

lemma main_B_run:
  "main_B env =
     Some (0,
       [''Hello, Hero! Welcome to the game.'',
        ''Your current health is: 90 out of 100'',
        ''Boss health: 120 out of 150'',
        ''[DEBUG] Debugging information enabled.'',
        ''[DEBUG] Player name: Hero'',
        ''[DEBUG] Player health: 90'',
        ''[DEBUG] Boss health: 120'',
        ''File: '' @ file_name env,
        ''Compiled on: '' @ build_date env @ '' at '' @ build_time env,
        ''Current line number: 72'',
        ''Hard mode activated.''])"
  by (simp add: main_B_def part1_def part2_def part3_def part4_def part5_def pp_defs
        show_int_values)

text \<open>
  Claim C8. The greeting macro applied to "Hero" prints exactly
  "Hello, Hero! Welcome to the game."; the first health comparison is made while
  \<open>MAX_HEALTH\<close> is 100 and prints "Your current health is: 90 out of 100"; after the
  \<open>#undef\<close> and the second \<open>#define\<close>, \<open>MAX_HEALTH\<close> is 150 and the boss line is
  "Boss health: 120 out of 150". These are the first three lines of the program.
\<close>

theorem greeting_and_thresholds:
  "(\<exists>s1 s2.
      part1 pstate0 = Some s1
      \<and> out s1 = [''Hello, Hero! Welcome to the game.'',
                  ''Your current health is: 90 out of 100'']
      \<and> macro_int (macros s1) ''MAX_HEALTH'' = Some 100
      \<and> part2 s1 = Some s2
      \<and> out s2 = out s1 @ [''Boss health: 120 out of 150'']
      \<and> macro_int (macros s2) ''MAX_HEALTH'' = Some 150)
   \<and> (\<exists>rest. main_B env =
         Some (0, [''Hello, Hero! Welcome to the game.'',
                   ''Your current health is: 90 out of 100'',
                   ''Boss health: 120 out of 150''] @ rest))"
  by (simp add: main_B_run) (simp add: part1_def part2_def pp_defs show_int_values)

text \<open>
  Claim C2 says the difficulty conditional prints "Normal mode activated.". The program
  does not: \<open>difficulty\<close> is a variable of \<open>main\<close>, not a macro, so in \<open>#if difficulty == 1\<close>
  and \<open>#elif difficulty == 2\<close> the preprocessor replaces it by 0, both conditions are
  false, and the \<open>#else\<close> group is the one compiled. The last line of the program is
  "Hard mode activated.", and "Normal mode activated." is not printed at all.
\<close>

theorem difficulty_conditional_selects_hard:
  "(\<exists>s4. Option.bind (Option.bind (Option.bind (part1 pstate0) part2) part3) (part4 env) = Some s4
      \<and> macros s4 ''difficulty'' = None
      \<and> pp_eval (macros s4) (Equal (Ident ''difficulty'') (Lit 1)) = Some 0
      \<and> pp_eval (macros s4) (Equal (Ident ''difficulty'') (Lit 2)) = Some 0
      \<and> part5 s4 = Some (print_line ''Hard mode activated.'' s4))
   \<and> (\<exists>lines. main_B env = Some (0, lines @ [''Hard mode activated.''])
      \<and> ''Normal mode activated.'' \<notin> set lines
      \<and> ''Easy mode activated.'' \<notin> set lines
      \<and> ''Hard mode activated.'' \<notin> set lines)"
  by (simp add: main_B_run) (simp add: part1_def part2_def part3_def part4_def part5_def pp_defs)

end
